theory Spec2Isabelle
  imports Complex_Main
begin

section \<open>Python values used by \<open>httpie.py\<close>\<close>

text \<open>
  Strings are Python 2 byte strings: a \<open>string\<close> is the list of its bytes. The exceptions
  the program can raise are values of \<open>error\<close>; a computation that may raise returns
  \<open>error + 'a\<close>, with \<open>Inl\<close> for the exception.

  \<^item> \<open>ArgumentTypeError m\<close>: \<^verbatim>\<open>argparse.ArgumentTypeError(m)\<close>, raised by the item type;
  \<^item> \<open>ParserError m\<close>: \<^verbatim>\<open>parser.error(m)\<close>, which prints the usage and leaves with status 2;
  \<^item> \<open>KeyError\<close>, \<open>ValueError\<close>: a missing dictionary key, an unpacking of the wrong length;
  \<^item> \<open>SystemExit n\<close>: \<^verbatim>\<open>sys.exit(n)\<close>;
  \<^item> \<open>Reraised m\<close>: the exception of the transport, raised again under \<^verbatim>\<open>--traceback\<close>;
  \<^item> \<open>DecodeError\<close>: \<^verbatim>\<open>bytes.decode(encoding)\<close> refusing its input;
  \<^item> \<open>UnicodeDecodeError\<close>: \<^verbatim>\<open>json.dumps\<close> refusing a byte string that is not UTF-8.
\<close>

datatype error =
    ArgumentTypeError string
  | ParserError string
  | KeyError
  | ValueError
  | SystemExit nat
  | Reraised string
  | DecodeError
  | UnicodeDecodeError

subsection \<open>Dictionaries\<close>

text \<open>
  A \<^verbatim>\<open>dict\<close> is an association list with distinct keys: \<open>dict_set\<close> is
  \<^verbatim>\<open>d[k] = v\<close> (an existing key keeps its place and gets the new value, a new key goes to
  the end), \<open>dict_of\<close> is \<^verbatim>\<open>dict(pairs)\<close> (a later pair wins), \<open>dict_get\<close> is
  \<^verbatim>\<open>d[k]\<close>, which raises \<^verbatim>\<open>KeyError\<close> on a missing key. The list keeps the items
  in the order of their first insertion, the order that section 3 of the specification
  gives the Data Map; the order in which Python 2 iterates over a dictionary is a parameter
  of \<^verbatim>\<open>json.dumps\<close> below, the one place where the program observes it.
\<close>

fun dict_set :: "'k \<Rightarrow> 'v \<Rightarrow> ('k \<times> 'v) list \<Rightarrow> ('k \<times> 'v) list" where
  "dict_set k v [] = [(k, v)]"
| "dict_set k v ((k', v') # d) = (if k' = k then (k', v) # d else (k', v') # dict_set k v d)"

definition dict_of :: "('k \<times> 'v) list \<Rightarrow> ('k \<times> 'v) list" where
  "dict_of ps = foldl (\<lambda>d (k, v). dict_set k v d) [] ps"

definition dict_keys :: "('k \<times> 'v) list \<Rightarrow> 'k list" where
  "dict_keys d = map fst d"

definition dict_get :: "('k \<times> 'v) list \<Rightarrow> 'k \<Rightarrow> error + 'v" where
  "dict_get d k = (case map_of d k of None \<Rightarrow> Inl KeyError | Some v \<Rightarrow> Inr v)"

subsection \<open>String operations\<close>

text \<open>
  \<^verbatim>\<open>s.find(c)\<close> for a one-character \<open>c\<close>: the index of its first occurrence, or \<open>-1\<close>.
  \<^verbatim>\<open>s.split(c, 1)\<close>: the parts before and after the first occurrence of \<open>c\<close>, or the whole
  string alone when \<open>c\<close> does not occur.
\<close>

definition str_find :: "string \<Rightarrow> char \<Rightarrow> int" where
  "str_find s c = (if c \<in> set s then int (length (takeWhile (\<lambda>x. x \<noteq> c) s)) else - 1)"

definition split1 :: "string \<Rightarrow> char \<Rightarrow> string list" where
  "split1 s c =
     (if c \<in> set s then [takeWhile (\<lambda>x. x \<noteq> c) s, tl (dropWhile (\<lambda>x. x \<noteq> c) s)] else [s])"

section \<open>The item type: \<open>KeyValueType\<close>\<close>

text \<open>
  \<^verbatim>\<open>KeyValue = namedtuple('KeyValue', ['key', 'value', 'sep'])\<close>. Every separator the
  program passes is one character (\<^verbatim>\<open>SEP_COMMON\<close>, \<^verbatim>\<open>SEP_DATA\<close>; a \<^verbatim>\<open>str\<close> of
  separators is iterated character by character), so a separator is a \<open>char\<close> and
  \<^verbatim>\<open>self.separators\<close> is a \<open>char list\<close>. The field \<open>val\<close> is \<^verbatim>\<open>value\<close>.
\<close>

record KeyValue =
  key :: string
  val :: string
  sep :: char

definition SEP_COMMON :: char where
  "SEP_COMMON = CHR '':''"

definition SEP_DATA :: char where
  "SEP_DATA = CHR ''=''"

text \<open>
  \<^verbatim>\<open>KeyValueType(separators).__call__(string)\<close>: \<open>found\<close> maps the first position of each
  separator that occurs to that separator; with no separator found the call raises
  \<^verbatim>\<open>ArgumentTypeError('"%s" is not a valid value' % string)\<close>; otherwise the separator at
  the least position splits the string once.
\<close>

definition found_positions :: "char list \<Rightarrow> string \<Rightarrow> (int \<times> char) list" where
  "found_positions separators string =
     dict_of (map (\<lambda>c. (str_find string c, c)) (filter (\<lambda>c. str_find string c \<noteq> - 1) separators))"

definition KeyValueType_call :: "char list \<Rightarrow> string \<Rightarrow> error + KeyValue" where
  "KeyValueType_call separators string =
     (let found = found_positions separators string in
      if found = [] then
        Inl (ArgumentTypeError (''\"'' @ string @ ''\" is not a valid value''))
      else
        case dict_get found (min_list (dict_keys found)) of
          Inl e \<Rightarrow> Inl e
        | Inr s \<Rightarrow>
            (case split1 string s of
               [k, v] \<Rightarrow> Inr \<lparr>key = k, val = v, sep = s\<rparr>
             | _ \<Rightarrow> Inl ValueError))"

section \<open>The collaborators of \<open>main\<close>\<close>

subsection \<open>More string operations\<close>

text \<open>
  \<^verbatim>\<open>s.lower()\<close> on a byte string maps the letters \<open>A\<close> to \<open>Z\<close> to \<open>a\<close> to \<open>z\<close>;
  \<^verbatim>\<open>sub in s\<close> is the substring test; \<^verbatim>\<open>sep.join(parts)\<close>; \<^verbatim>\<open>str(n)\<close> of a
  natural number; \<^verbatim>\<open>s.strip()\<close>; \<^verbatim>\<open>os.path.basename(p)\<close>, the part after the last slash.
\<close>

definition lower_char :: "char \<Rightarrow> char" where
  "lower_char c =
     (case map_of (zip ''ABCDEFGHIJKLMNOPQRSTUVWXYZ'' ''abcdefghijklmnopqrstuvwxyz'') c of
        None \<Rightarrow> c
      | Some l \<Rightarrow> l)"

definition lower :: "string \<Rightarrow> string" where
  "lower s = map lower_char s"

fun startswith :: "string \<Rightarrow> string \<Rightarrow> bool" where
  "startswith s [] = True"
| "startswith [] (p # ps) = False"
| "startswith (c # s) (p # ps) = (c = p \<and> startswith s ps)"

fun str_in :: "string \<Rightarrow> string \<Rightarrow> bool" where
  "str_in sub [] = (sub = [])"
| "str_in sub (c # s) = (startswith (c # s) sub \<or> str_in sub s)"

fun join :: "string \<Rightarrow> string list \<Rightarrow> string" where
  "join j [] = []"
| "join j [p] = p"
| "join j (p # q # ps) = p @ j @ join j (q # ps)"

fun str_nat :: "nat \<Rightarrow> string" where
  "str_nat n =
     (if n < 10 then [''0123456789'' ! n]
      else str_nat (n div 10) @ [''0123456789'' ! (n mod 10)])"

definition isspace :: "char \<Rightarrow> bool" where
  "isspace c = (c \<in> set [CHR '' '', CHR 0x09, CHR 0x0A, CHR 0x0B, CHR 0x0C, CHR 0x0D])"

definition strip :: "string \<Rightarrow> string" where
  "strip s = rev (dropWhile isspace (rev (dropWhile isspace s)))"

definition basename :: "string \<Rightarrow> string" where
  "basename p = rev (takeWhile (\<lambda>c. c \<noteq> CHR ''/'') (rev p))"

subsection \<open>The header map\<close>

text \<open>
  Modelled from the spec: \<^verbatim>\<open>requests.structures.CaseInsensitiveDict\<close> is imported, not
  defined, by \<open>httpie.py\<close>. Section 3 of the specification describes the Header Map:
  ordered; keys compared without regard to case; the casing of the first insertion of a
  key is kept; a later insertion under an equivalent key overwrites the earlier value.
  \<open>hm_set\<close> is \<^verbatim>\<open>h[k] = v\<close>, \<open>hm_contains\<close> is \<^verbatim>\<open>k in h\<close>, \<open>hm_get\<close> is
  \<^verbatim>\<open>h[k]\<close>.
\<close>

type_synonym header_map = "(string \<times> string) list"

fun hm_set :: "string \<Rightarrow> string \<Rightarrow> header_map \<Rightarrow> header_map" where
  "hm_set k v [] = [(k, v)]"
| "hm_set k v ((k', v') # h) =
     (if lower k' = lower k then (k', v) # h else (k', v') # hm_set k v h)"

definition hm_lookup :: "header_map \<Rightarrow> string \<Rightarrow> string option" where
  "hm_lookup h k = map_of (map (\<lambda>(k', v). (lower k', v)) h) (lower k)"

definition hm_contains :: "header_map \<Rightarrow> string \<Rightarrow> bool" where
  "hm_contains h k = (hm_lookup h k \<noteq> None)"

definition hm_get :: "header_map \<Rightarrow> string \<Rightarrow> error + string" where
  "hm_get h k = (case hm_lookup h k of None \<Rightarrow> Inl KeyError | Some v \<Rightarrow> Inr v)"

subsection \<open>The request body and \<open>json.dumps\<close>\<close>

text \<open>
  The variable \<^verbatim>\<open>data\<close> of \<open>main\<close> holds a \<^verbatim>\<open>dict\<close> of strings (the data items) or a
  \<^verbatim>\<open>str\<close> (the piped input, or the JSON text). \<open>truthy\<close> is its truth value in a
  condition: a dictionary or a string is true when it is not empty.

  \<^verbatim>\<open>json.dumps\<close> writes a dictionary as \<^verbatim>\<open>{"k": "v", ...}\<close>, the items joined by a comma
  and a space, key and value by a colon and a space, and a string as its quoted form. Two
  things are parameters. The quoting of one string (\<^verbatim>\<open>encode_basestring_ascii\<close> of the
  standard library) is \<open>enc\<close>: on a Python 2 byte string it raises
  \<^verbatim>\<open>UnicodeDecodeError\<close> when the bytes are not UTF-8, so it returns an error or the
  quoted text, and the first string refused ends \<^verbatim>\<open>json.dumps\<close>. The order in which
  Python 2 iterates over a dictionary is that of its hash table, not that of insertion:
  \<open>order\<close> gives it, and \<open>iter_items\<close> uses it where it is a rearrangement of the items.
\<close>

datatype data = Dict "(string \<times> string) list" | Str string

fun truthy :: "data \<Rightarrow> bool" where
  "truthy (Dict d) = (d \<noteq> [])"
| "truthy (Str s) = (s \<noteq> [])"

definition iter_items :: "((string \<times> string) list \<Rightarrow> (string \<times> string) list) \<Rightarrow>
    (string \<times> string) list \<Rightarrow> (string \<times> string) list" where
  "iter_items order d =
     (if set (order d) = set d \<and> length (order d) = length d then order d else d)"

fun encode_items :: "(string \<Rightarrow> error + string) \<Rightarrow> (string \<times> string) list \<Rightarrow>
    error + string list" where
  "encode_items enc [] = Inr []"
| "encode_items enc ((k, v) # rest) =
     (case enc k of
        Inl err \<Rightarrow> Inl err
      | Inr qk \<Rightarrow>
          (case enc v of
             Inl err \<Rightarrow> Inl err
           | Inr qv \<Rightarrow>
               (case encode_items enc rest of
                  Inl err \<Rightarrow> Inl err
                | Inr parts \<Rightarrow> Inr ((qk @ '': '' @ qv) # parts))))"

fun json_dumps :: "(string \<Rightarrow> error + string) \<Rightarrow>
    ((string \<times> string) list \<Rightarrow> (string \<times> string) list) \<Rightarrow> data \<Rightarrow> error + string" where
  "json_dumps enc order (Dict d) =
     (case encode_items enc (iter_items order d) of
        Inl err \<Rightarrow> Inl err
      | Inr parts \<Rightarrow> Inr (''{'' @ join '', '' parts @ ''}''))"
| "json_dumps enc order (Str s) = enc s"

subsection \<open>Arguments, request and response\<close>

text \<open>
  \<open>Namespace\<close> is the result of \<^verbatim>\<open>parser.parse_args\<close>, one field for each argument
  (\<open>file_arg\<close> is \<^verbatim>\<open>args.file\<close>, \<open>method_arg\<close> is \<^verbatim>\<open>args.method\<close>). \<^verbatim>\<open>args.prettify\<close> is \<^verbatim>\<open>True\<close> (\<^verbatim>\<open>--pretty\<close>),
  \<^verbatim>\<open>False\<close> (\<^verbatim>\<open>--ugly\<close>) or the default \<^verbatim>\<open>PRETTIFY_STDOUT_TTY_ONLY\<close>.
\<close>

datatype prettify_arg = PRETTIFY_STDOUT_TTY_ONLY | Flag bool

record file_obj =
  name :: string
  contents :: string

record Namespace =
  json :: bool
  form :: bool
  traceback :: bool
  prettify :: prettify_arg
  print_body :: bool
  print_headers :: bool
  style :: string
  auth :: "KeyValue option"
  verify :: "string option"
  proxy :: "KeyValue list"
  allow_redirects :: bool
  file_arg :: "file_obj list"
  timeout :: "real option"
  method_arg :: string
  url :: string
  items :: "KeyValue list"

text \<open>
  The keyword arguments of \<^verbatim>\<open>requests.request\<close>, each field \<open>req_\<close> and the keyword.
  \<^verbatim>\<open>verify\<close> is \<^verbatim>\<open>True\<close> or what the user gave (\<^verbatim>\<open>None\<close> or a path).
\<close>

datatype verify_kw = VerifyTrue | VerifyArg "string option"

record request =
  req_method :: string
  req_url :: string
  req_headers :: header_map
  req_data :: data
  req_verify :: verify_kw
  req_timeout :: "real option"
  req_auth :: "(string \<times> string) option"
  req_proxies :: "(string \<times> string) list"
  req_files :: "(string \<times> file_obj) list"
  req_allow_redirects :: bool

text \<open>
  What \<open>main\<close> reads of the response: \<^verbatim>\<open>response.encoding\<close>, the \<^verbatim>\<open>version\<close>,
  \<^verbatim>\<open>status\<close>, \<^verbatim>\<open>reason\<close> and \<^verbatim>\<open>str(msg)\<close> of \<^verbatim>\<open>response.raw._original_response\<close>,
  \<^verbatim>\<open>response.content\<close> and \<^verbatim>\<open>response.headers\<close>.
\<close>

record response =
  encoding :: "string option"
  version :: nat
  status :: nat
  reason :: string
  msg :: string
  content :: string
  headers :: header_map

text \<open>
  The call of \<^verbatim>\<open>requests.request\<close> returns a response, or raises
  \<^verbatim>\<open>KeyboardInterrupt\<close> or \<^verbatim>\<open>SystemExit\<close> (\<open>Interrupted\<close>), or another exception with its
  \<^verbatim>\<open>message\<close> (\<open>Failed\<close>).
\<close>

datatype outcome = Returned response | Interrupted | Failed string

text \<open>
  The environment of a run: the package's \<^verbatim>\<open>__version__\<close>, the quoting and the
  dictionary order of \<^verbatim>\<open>json.dumps\<close>, the transport \<^verbatim>\<open>requests.request\<close>, \<^verbatim>\<open>bytes.decode(encoding)\<close>
  (which may refuse), \<^verbatim>\<open>text.encode('utf-8')\<close>, and the two operations of
  \<^verbatim>\<open>pretty.PrettyHttp(style)\<close>.
\<close>

record env =
  pkg_version :: string
  encode_basestring_ascii :: "string \<Rightarrow> error + string"
  dict_iter :: "(string \<times> string) list \<Rightarrow> (string \<times> string) list"
  requests_request :: "request \<Rightarrow> outcome"
  decode :: "string \<Rightarrow> string \<Rightarrow> error + string"
  encode_utf8 :: "string \<Rightarrow> string"
  prettify_headers :: "string \<Rightarrow> string \<Rightarrow> string"
  prettify_body :: "string \<Rightarrow> string \<Rightarrow> string \<Rightarrow> string"

text \<open>
  What a run does to the outside, in order: the call of the transport, the calls of the
  formatter (\<open>PrettyHeaders text\<close>, \<open>PrettyBody text content_type\<close>), and the writes to
  standard output and standard error.
\<close>

datatype event =
    Sent request
  | PrettyHeaders string
  | PrettyBody string string
  | Stdout string
  | Stderr string

section \<open>The program: \<open>main\<close>\<close>

definition DEFAULT_UA :: "string \<Rightarrow> string" where
  "DEFAULT_UA v = ''HTTPie/'' @ v"

definition TYPE_FORM :: string where
  "TYPE_FORM = ''application/x-www-form-urlencoded; charset=utf-8''"

definition TYPE_JSON :: string where
  "TYPE_JSON = ''application/json; charset=utf-8''"

definition MIXED_MESSAGE :: string where
  "MIXED_MESSAGE = ''Request body (stdin) and request data (key=value) cannot be mixed.''"

text \<open>
  \<^verbatim>\<open>do_prettify = (args.prettify is True or
      (args.prettify == PRETTIFY_STDOUT_TTY_ONLY and stdout_isatty))\<close>
\<close>

definition do_prettify :: "Namespace \<Rightarrow> bool \<Rightarrow> bool" where
  "do_prettify args stdout_isatty =
     (prettify args = Flag True \<or> (prettify args = PRETTIFY_STDOUT_TTY_ONLY \<and> stdout_isatty))"

text \<open>
  The loop over \<^verbatim>\<open>args.items\<close>: an item with the separator \<^verbatim>\<open>SEP_COMMON\<close> is stored in
  \<^verbatim>\<open>headers\<close>; any other item is stored in \<^verbatim>\<open>data\<close>, after \<^verbatim>\<open>parser.error\<close> has
  ended the run when standard input is not a terminal.
\<close>

fun merge_items :: "bool \<Rightarrow> KeyValue list \<Rightarrow> header_map \<Rightarrow> (string \<times> string) list \<Rightarrow>
    error + header_map \<times> (string \<times> string) list" where
  "merge_items stdin_isatty [] hs d = Inr (hs, d)"
| "merge_items stdin_isatty (item # rest) hs d =
     (if sep item = SEP_COMMON then
        merge_items stdin_isatty rest (hm_set (key item) (val item) hs) d
      else if \<not> stdin_isatty then
        Inl (ParserError MIXED_MESSAGE)
      else
        merge_items stdin_isatty rest hs (dict_set (key item) (val item) d))"

text \<open>
  The content type:
  \<^verbatim>\<open>
  if args.json or (not args.form and data):
      if stdin_isatty:
          data = json.dumps(data)
      if 'Content-Type' not in headers and (data or args.json):
          headers['Content-Type'] = TYPE_JSON
  elif 'Content-Type' not in headers:
      headers['Content-Type'] = TYPE_FORM
  \<close>
\<close>

definition content_type :: "env \<Rightarrow> Namespace \<Rightarrow> bool \<Rightarrow> header_map \<Rightarrow> data \<Rightarrow>
    error + header_map \<times> data" where
  "content_type e args stdin_isatty hs d =
     (if json args \<or> (\<not> form args \<and> truthy d) then
        case (if stdin_isatty then
                (case json_dumps (encode_basestring_ascii e) (dict_iter e) d of
                   Inl err \<Rightarrow> Inl err
                 | Inr text \<Rightarrow> Inr (Str text))
              else Inr d) of
          Inl err \<Rightarrow> Inl err
        | Inr d' \<Rightarrow>
            if \<not> hm_contains hs ''Content-Type'' \<and> (truthy d' \<or> json args) then
              Inr (hm_set ''Content-Type'' TYPE_JSON hs, d')
            else Inr (hs, d')
      else if \<not> hm_contains hs ''Content-Type'' then
        Inr (hm_set ''Content-Type'' TYPE_FORM hs, d)
      else Inr (hs, d))"

text \<open>
  The request that \<open>main\<close> hands to \<^verbatim>\<open>requests.request\<close>: the headers start with the
  default \<^verbatim>\<open>User-Agent\<close>, the items are merged, piped input replaces the data, the
  content type is settled, and the other keyword arguments are taken from \<open>args\<close>. An
  exception of \<^verbatim>\<open>json.dumps\<close> leaves \<open>main\<close> there: the call is before the
  \<^verbatim>\<open>try\<close> of the transport.
\<close>

definition assemble :: "env \<Rightarrow> Namespace \<Rightarrow> string \<Rightarrow> bool \<Rightarrow> error + request" where
  "assemble e args stdin stdin_isatty =
     (case merge_items stdin_isatty (items args)
             (hm_set ''User-Agent'' (DEFAULT_UA (pkg_version e)) []) [] of
        Inl err \<Rightarrow> Inl err
      | Inr (hs, d) \<Rightarrow>
          (case content_type e args stdin_isatty hs
                  (if \<not> stdin_isatty then Str stdin else Dict d) of
             Inl err \<Rightarrow> Inl err
           | Inr (hs2, d2) \<Rightarrow>
               Inr \<lparr>req_method = lower (method_arg args),
                    req_url =
                      (if str_in ''://'' (url args) then url args else ''http://'' @ url args),
                    req_headers = hs2,
                    req_data = d2,
                    req_verify =
                      (if verify args = Some ''yes'' then VerifyTrue else VerifyArg (verify args)),
                    req_timeout = timeout args,
                    req_auth = (case auth args of None \<Rightarrow> None | Some a \<Rightarrow> Some (key a, val a)),
                    req_proxies = dict_of (map (\<lambda>p. (key p, val p)) (proxy args)),
                    req_files = dict_of (map (\<lambda>f. (basename (name f), f)) (file_arg args)),
                    req_allow_redirects = allow_redirects args\<rparr>))"

text \<open>
  The formatter, when \<open>do_prettify\<close> holds:
  \<^verbatim>\<open>
  if do_prettify:
      prettify = pretty.PrettyHttp(args.style)
      if args.print_headers:
          status_line = prettify.headers(status_line).strip()
          headers = prettify.headers(headers)
      if args.print_body and 'content-type' in response.headers:
          body = prettify.body(body, response.headers['content-type'])
  \<close>
  The result is the calls made, in order, and the three texts.
\<close>

definition prettify_response :: "env \<Rightarrow> Namespace \<Rightarrow> bool \<Rightarrow> header_map \<Rightarrow>
    string \<times> string \<times> string \<Rightarrow> error + event list \<times> string \<times> string \<times> string" where
  "prettify_response e args stdout_isatty response_headers texts =
     (case texts of (status_line, hdrs, body) \<Rightarrow>
        if do_prettify args stdout_isatty then
          let (ev1, status_line1, hdrs1) =
                (if print_headers args then
                   ([PrettyHeaders status_line, PrettyHeaders hdrs],
                    strip (prettify_headers e (style args) status_line),
                    prettify_headers e (style args) hdrs)
                 else ([], status_line, hdrs))
          in if print_body args \<and> hm_contains response_headers ''content-type'' then
               (case hm_get response_headers ''content-type'' of
                  Inl err \<Rightarrow> Inl err
                | Inr ct \<Rightarrow>
                    Inr (ev1 @ [PrettyBody body ct], status_line1, hdrs1,
                         prettify_body e (style args) body ct))
             else Inr (ev1, status_line1, hdrs1, body)
        else Inr ([], status_line, hdrs, body))"

text \<open>
  The display of the response: the encoding (\<^verbatim>\<open>response.encoding or 'ISO-8859-1'\<close>), the
  status line, the decoded header block and body, the formatter, and the writes to
  standard output.
\<close>

definition status_line_of :: "response \<Rightarrow> string" where
  "status_line_of r =
     ''HTTP/'' @ join ''.'' (map (\<lambda>c. [c]) (str_nat (version r))) @ '' '' @
     str_nat (status r) @ '' '' @ reason r"

definition decode_response :: "env \<Rightarrow> response \<Rightarrow> error + string \<times> string" where
  "decode_response e r =
     (let enc = (case encoding r of None \<Rightarrow> ''ISO-8859-1''
                 | Some n \<Rightarrow> if n = [] then ''ISO-8859-1'' else n)
      in case decode e enc (msg r) of
           Inl err \<Rightarrow> Inl err
         | Inr hdrs \<Rightarrow>
             (case (if content r \<noteq> [] then decode e enc (content r) else Inr []) of
                Inl err \<Rightarrow> Inl err
              | Inr body \<Rightarrow> Inr (hdrs, body)))"

definition display :: "env \<Rightarrow> Namespace \<Rightarrow> bool \<Rightarrow> response \<Rightarrow> event list \<times> (error + unit)" where
  "display e args stdout_isatty r =
     (case decode_response e r of
        Inl err \<Rightarrow> ([], Inl err)
      | Inr (hdrs, body) \<Rightarrow>
          (case prettify_response e args stdout_isatty (headers r)
                  (status_line_of r, hdrs, body) of
             Inl err \<Rightarrow> ([], Inl err)
           | Inr (evs, status_line1, hdrs1, body1) \<Rightarrow>
               (evs
                @ (if print_headers args then
                     [Stdout status_line1, Stdout [CHR 0x0A],
                      Stdout (encode_utf8 e hdrs1), Stdout [CHR 0x0A, CHR 0x0A]]
                   else [])
                @ (if print_body args then
                     [Stdout (encode_utf8 e body1), Stdout [CHR 0x0A]]
                   else []),
                Inr ())))"

text \<open>
  \<open>main\<close>, after \<^verbatim>\<open>parser.parse_args\<close>: the request is assembled and sent once; an
  interrupt writes a newline to standard error and leaves with status 1; another exception
  is raised again under \<^verbatim>\<open>--traceback\<close>, and otherwise its message is written to standard
  error and the run leaves with status 1; a response is displayed.
\<close>

definition main :: "env \<Rightarrow> Namespace \<Rightarrow> string \<Rightarrow> bool \<Rightarrow> bool \<Rightarrow> event list \<times> (error + unit)" where
  "main e args stdin stdin_isatty stdout_isatty =
     (case assemble e args stdin stdin_isatty of
        Inl err \<Rightarrow> ([], Inl err)
      | Inr rq \<Rightarrow>
          (case requests_request e rq of
             Interrupted \<Rightarrow> ([Sent rq, Stderr [CHR 0x0A]], Inl (SystemExit 1))
           | Failed m \<Rightarrow>
               if traceback args then ([Sent rq], Inl (Reraised m))
               else ([Sent rq, Stderr (m @ [CHR 0x0A])], Inl (SystemExit 1))
           | Returned r \<Rightarrow>
               (case display e args stdout_isatty r of
                  (evs, res) \<Rightarrow> (Sent rq # evs, res))))"

section \<open>Notions of the specification\<close>

text \<open>
  The Header Map and the Data Map that the items build, each as a fold over the items of
  its kind; the value of the last header item stored under a name, if there is one; the
  number of entries of a header map under a name; and the calls of the formatter's body
  operation among the events of a run.
\<close>

definition header_items :: "KeyValue list \<Rightarrow> header_map \<Rightarrow> header_map" where
  "header_items its hs =
     foldl (\<lambda>h i. hm_set (key i) (val i) h) hs (filter (\<lambda>i. sep i = SEP_COMMON) its)"

definition data_items :: "KeyValue list \<Rightarrow> (string \<times> string) list" where
  "data_items its =
     foldl (\<lambda>d i. dict_set (key i) (val i) d) [] (filter (\<lambda>i. sep i \<noteq> SEP_COMMON) its)"

definition last_header :: "string \<Rightarrow> KeyValue list \<Rightarrow> string option" where
  "last_header n its =
     (let named = filter (\<lambda>i. sep i = SEP_COMMON \<and> lower (key i) = lower n) its
      in if named = [] then None else Some (val (last named)))"

definition hm_count :: "header_map \<Rightarrow> string \<Rightarrow> nat" where
  "hm_count h n = length (filter (\<lambda>(k, v). lower k = lower n) h)"

fun is_body_call :: "event \<Rightarrow> bool" where
  "is_body_call (PrettyBody t ct) = True"
| "is_body_call (Sent rq) = False"
| "is_body_call (PrettyHeaders t) = False"
| "is_body_call (Stdout t) = False"
| "is_body_call (Stderr t) = False"

fun is_sent :: "event \<Rightarrow> bool" where
  "is_sent (Sent rq) = True"
| "is_sent (PrettyBody t ct) = False"
| "is_sent (PrettyHeaders t) = False"
| "is_sent (Stdout t) = False"
| "is_sent (Stderr t) = False"

section \<open>An example run\<close>

text \<open>
  A response with a content type, and an environment whose transport returns it and whose
  decoding, encoding and formatting leave their input as it is. Its quoting puts a string
  between double quotes, which is what the library returns for a word of letters and
  digits, and refuses a string that holds the byte \<open>0xFF\<close>, which occurs in no UTF-8 text;
  its dictionary order is the order of insertion, the only order of a dictionary of one
  item. Then the arguments of \<^verbatim>\<open>POST example.com\<close>, the data item \<^verbatim>\<open>name=joe\<close>, a data
  item whose value is the byte \<open>0xFF\<close>, and three header items.
\<close>

definition example_response :: response where
  "example_response =
     \<lparr>encoding = None, version = 11, status = 200, reason = ''OK'',
      msg = ''Content-Type: text/plain'', content = ''hello'',
      headers = [(''Content-Type'', ''text/plain'')]\<rparr>"

definition example_quote :: "string \<Rightarrow> error + string" where
  "example_quote s =
     (if CHR 0xFF \<in> set s then Inl UnicodeDecodeError else Inr (''\"'' @ s @ ''\"''))"

definition example_env :: env where
  "example_env =
     \<lparr>pkg_version = ''0.1'',
      encode_basestring_ascii = example_quote,
      dict_iter = (\<lambda>d. d),
      requests_request = (\<lambda>rq. Returned example_response),
      decode = (\<lambda>n s. Inr s),
      encode_utf8 = (\<lambda>s. s),
      prettify_headers = (\<lambda>st s. s),
      prettify_body = (\<lambda>st s ct. s)\<rparr>"

definition example_args :: Namespace where
  "example_args =
     \<lparr>json = False, form = False, traceback = False, prettify = PRETTIFY_STDOUT_TTY_ONLY,
      print_body = True, print_headers = True, style = ''solarized'', auth = None,
      verify = None, proxy = [], allow_redirects = False, file_arg = [], timeout = None,
      method_arg = ''POST'', url = ''example.com'', items = []\<rparr>"

definition example_items :: "KeyValue list" where
  "example_items = [\<lparr>key = ''name'', val = ''joe'', sep = CHR ''=''\<rparr>]"

definition example_bytes :: "KeyValue list" where
  "example_bytes = [\<lparr>key = ''a'', val = [CHR 0xFF], sep = CHR ''=''\<rparr>]"

definition example_headers :: "KeyValue list" where
  "example_headers =
     [\<lparr>key = ''content-type'', val = ''text/plain'', sep = CHR '':''\<rparr>,
      \<lparr>key = ''USER-AGENT'', val = ''me'', sep = CHR '':''\<rparr>,
      \<lparr>key = ''user-agent'', val = ''you'', sep = CHR '':''\<rparr>]"

section \<open>Facts about dictionaries and strings\<close>

lemma map_of_dict_set: "map_of (dict_set k v d) = (map_of d)(k \<mapsto> v)"
  by (induction d) (auto simp: fun_eq_iff)

lemma dict_set_keys: "fst ` set (dict_set k v d) = insert k (fst ` set d)"
  using arg_cong [OF map_of_dict_set [of k v d], of dom]
  by (simp add: dom_map_of_conv_image_fst)

lemma dict_set_entries: "(a, b) \<in> set (dict_set k v d) \<Longrightarrow> (a, b) = (k, v) \<or> (a, b) \<in> set d"
  by (induction d) (auto split: if_splits)

lemma foldl_dict_set_keys:
  "fst ` set (foldl (\<lambda>d (k, v). dict_set k v d) d0 ps) = fst ` set d0 \<union> fst ` set ps"
proof (induction ps arbitrary: d0)
  case Nil
  show ?case by simp
next
  case (Cons p ps)
  obtain k v where p: "p = (k, v)" by (cases p)
  show ?case
    using Cons.IH [of "dict_set k v d0"] by (simp add: p dict_set_keys)
qed

lemma foldl_dict_set_entries:
  "e \<in> set (foldl (\<lambda>d (k, v). dict_set k v d) d0 ps) \<Longrightarrow> e \<in> set d0 \<or> e \<in> set ps"
proof (induction ps arbitrary: d0)
  case Nil
  then show ?case by simp
next
  case (Cons p ps)
  obtain k v where p: "p = (k, v)" by (cases p)
  obtain a b where e: "e = (a, b)" by (cases e)
  from Cons.prems have "e \<in> set (foldl (\<lambda>d (k, v). dict_set k v d) (dict_set k v d0) ps)"
    by (simp add: p)
  then have "e \<in> set (dict_set k v d0) \<or> e \<in> set ps"
    by (rule Cons.IH)
  then show ?case
    using dict_set_entries [of a b k v d0] by (auto simp: p e)
qed

lemma dict_of_keys: "fst ` set (dict_of ps) = fst ` set ps"
  by (simp add: dict_of_def foldl_dict_set_keys)

lemma dict_of_entries: "e \<in> set (dict_of ps) \<Longrightarrow> e \<in> set ps"
  using foldl_dict_set_entries [of e "[]" ps] by (simp add: dict_of_def)

lemma dict_of_empty: "dict_of ps = [] \<longleftrightarrow> ps = []"
proof
  assume "dict_of ps = []"
  then have "fst ` set ps = {}" using dict_of_keys [of ps] by simp
  then show "ps = []" by simp
qed (simp add: dict_of_def)

section \<open>The item type\<close>

lemma str_find_absent: "str_find s c = - 1 \<longleftrightarrow> c \<notin> set s"
  by (simp add: str_find_def)

lemma found_positions_empty:
  "found_positions separators s = [] \<longleftrightarrow> set separators \<inter> set s = {}"
  by (auto simp: found_positions_def dict_of_empty str_find_absent filter_empty_conv)

lemma found_positions_entry:
  "(p, c) \<in> set (found_positions separators s) \<Longrightarrow>
     c \<in> set separators \<and> c \<in> set s \<and> p = int (length (takeWhile (\<lambda>x. x \<noteq> c) s))"
  by (auto simp: found_positions_def str_find_def dest!: dict_of_entries split: if_splits)

lemma found_positions_keys:
  "c \<in> set separators \<Longrightarrow> c \<in> set s \<Longrightarrow>
     int (length (takeWhile (\<lambda>x. x \<noteq> c) s)) \<in> set (dict_keys (found_positions separators s))"
proof -
  assume c: "c \<in> set separators" "c \<in> set s"
  then have "str_find s c \<in> fst ` set (map (\<lambda>c. (str_find s c, c))
      (filter (\<lambda>c. str_find s c \<noteq> - 1) separators))"
    by (force simp: str_find_absent)
  then show ?thesis
    using c(2) by (simp add: found_positions_def dict_keys_def dict_of_keys str_find_def)
qed

lemma split_at_first:
  "c \<in> set s \<Longrightarrow> s = takeWhile (\<lambda>x. x \<noteq> c) s @ c # tl (dropWhile (\<lambda>x. x \<noteq> c) s)"
  by (induction s) auto

lemma length_takeWhile_neq_less:
  "x \<in> set xs \<Longrightarrow> length (takeWhile (\<lambda>y. y \<noteq> x) xs) < length xs"
  by (induction xs) auto

lemma takeWhile_first_separator:
  assumes c: "c \<in> set separators" "c \<in> set s"
    and least: "\<And>d. d \<in> set separators \<Longrightarrow> d \<in> set s \<Longrightarrow>
                  length (takeWhile (\<lambda>x. x \<noteq> c) s) \<le> length (takeWhile (\<lambda>x. x \<noteq> d) s)"
  shows "takeWhile (\<lambda>x. x \<noteq> c) s = takeWhile (\<lambda>x. x \<notin> set separators) s"
    and "dropWhile (\<lambda>x. x \<noteq> c) s = dropWhile (\<lambda>x. x \<notin> set separators) s"
proof -
  define pre where "pre = takeWhile (\<lambda>x. x \<noteq> c) s"
  define rest where "rest = tl (dropWhile (\<lambda>x. x \<noteq> c) s)"
  have s: "s = pre @ c # rest"
    unfolding pre_def rest_def using c(2) by (rule split_at_first)
  have pre: "x \<notin> set separators" if "x \<in> set pre" for x
  proof
    assume xs: "x \<in> set separators"
    have xin: "x \<in> set s" using that s by auto
    have "takeWhile (\<lambda>y. y \<noteq> x) s = takeWhile (\<lambda>y. y \<noteq> x) pre"
      using that by (subst s) (simp add: takeWhile_append1)
    then have "length (takeWhile (\<lambda>y. y \<noteq> x) s) < length pre"
      using length_takeWhile_neq_less [OF that] by simp
    with least [OF xs xin] show False by (simp add: pre_def)
  qed
  have "takeWhile (\<lambda>x. x \<notin> set separators) (pre @ c # rest) = pre"
    using pre c(1) by (simp add: takeWhile_append2)
  then have "takeWhile (\<lambda>x. x \<notin> set separators) s = pre"
    by (subst s)
  then show "takeWhile (\<lambda>x. x \<noteq> c) s = takeWhile (\<lambda>x. x \<notin> set separators) s"
    by (simp add: pre_def)
  have "dropWhile (\<lambda>x. x \<notin> set separators) (pre @ c # rest) = c # rest"
    using pre c(1) by (simp add: dropWhile_append2)
  then have d1: "dropWhile (\<lambda>x. x \<notin> set separators) s = c # rest"
    by (subst s)
  have "x \<noteq> c" if "x \<in> set pre" for x
    using that unfolding pre_def by (auto dest: set_takeWhileD)
  then have "dropWhile (\<lambda>x. x \<noteq> c) (pre @ c # rest) = c # rest"
    by (simp add: dropWhile_append2)
  then have d2: "dropWhile (\<lambda>x. x \<noteq> c) s = c # rest"
    by (subst s)
  show "dropWhile (\<lambda>x. x \<noteq> c) s = dropWhile (\<lambda>x. x \<notin> set separators) s"
    by (simp only: d1 d2)
qed

text \<open>
  With a separator in the string, the call returns the split at the first character that is
  a separator.
\<close>

lemma KeyValueType_call_first:
  assumes "set separators \<inter> set s \<noteq> {}"
  shows "KeyValueType_call separators s =
           Inr \<lparr>key = takeWhile (\<lambda>x. x \<notin> set separators) s,
                val = tl (dropWhile (\<lambda>x. x \<notin> set separators) s),
                sep = hd (dropWhile (\<lambda>x. x \<notin> set separators) s)\<rparr>"
proof -
  define found where "found = found_positions separators s"
  define m where "m = min_list (dict_keys found)"
  have ne: "found \<noteq> []"
    using assms by (simp add: found_def found_positions_empty)
  then have keys_ne: "dict_keys found \<noteq> []"
    by (simp add: dict_keys_def)
  have m_Min: "m = Min (set (dict_keys found))"
    unfolding m_def using keys_ne by (rule min_list_Min)
  then have "m \<in> set (dict_keys found)"
    using keys_ne by (simp add: Min_in)
  then obtain c where c_entry: "map_of found m = Some c"
    by (auto simp: dict_keys_def dest: weak_map_of_SomeI)
  then have "(m, c) \<in> set found"
    by (rule map_of_SomeD)
  then have c: "c \<in> set separators" "c \<in> set s"
    and m: "m = int (length (takeWhile (\<lambda>x. x \<noteq> c) s))"
    using found_positions_entry [of m c separators s] by (simp_all add: found_def)
  have least: "length (takeWhile (\<lambda>x. x \<noteq> c) s) \<le> length (takeWhile (\<lambda>x. x \<noteq> d) s)"
    if "d \<in> set separators" "d \<in> set s" for d
  proof -
    have "int (length (takeWhile (\<lambda>x. x \<noteq> d) s)) \<in> set (dict_keys found)"
      unfolding found_def using that by (rule found_positions_keys)
    then have "m \<le> int (length (takeWhile (\<lambda>x. x \<noteq> d) s))"
      unfolding m_Min by (simp add: Min_le)
    then show ?thesis by (simp add: m)
  qed
  note eqs = takeWhile_first_separator [OF c least]
  have hd_c: "hd (dropWhile (\<lambda>x. x \<noteq> c) s) = c"
    using c(2) by (induction s) auto
  have "KeyValueType_call separators s =
          Inr \<lparr>key = takeWhile (\<lambda>x. x \<noteq> c) s,
               val = tl (dropWhile (\<lambda>x. x \<noteq> c) s), sep = c\<rparr>"
    using ne c_entry c(2)
    by (simp add: KeyValueType_call_def Let_def found_def [symmetric] m_def [symmetric]
        dict_get_def split1_def)
  then show ?thesis
    using hd_c by (simp add: eqs)
qed


text \<open>
  Claim C2. For a string in which a candidate separator occurs, the Token Classifier
  splits at the earliest position \<open>p\<close> at which any candidate separator occurs: the
  token's separator is the character at \<open>p\<close>, its key is the text before \<open>p\<close> and its
  value is the text after \<open>p\<close>, later separators included as they are.
\<close>

theorem classifier_splits_at_first_separator:
  assumes "set separators \<inter> set s \<noteq> {}"
  shows "\<exists>p<length s. s ! p \<in> set separators \<and> (\<forall>j<p. s ! j \<notin> set separators) \<and>
           KeyValueType_call separators s =
             Inr \<lparr>key = take p s, val = drop (Suc p) s, sep = s ! p\<rparr>"
proof -
  define p where "p = length (takeWhile (\<lambda>x. x \<notin> set separators) s)"
  obtain c where "c \<in> set s" "c \<in> set separators"
    using assms by auto
  then have "takeWhile (\<lambda>x. x \<notin> set separators) s \<noteq> s"
    by (auto simp: takeWhile_eq_all_conv)
  then have p_less: "p < length s"
    unfolding p_def using length_takeWhile_le [of "\<lambda>x. x \<notin> set separators" s]
    by (metis le_neq_implies_less takeWhile_eq_take take_all_iff order_refl)
  have at_p: "s ! p \<in> set separators"
    using nth_length_takeWhile [of "\<lambda>x. x \<notin> set separators" s] p_less by (simp add: p_def)
  have before: "s ! j \<notin> set separators" if "j < p" for j
  proof -
    have "takeWhile (\<lambda>x. x \<notin> set separators) s ! j \<in> set (takeWhile (\<lambda>x. x \<notin> set separators) s)"
      using that by (simp add: p_def)
    then show ?thesis
      using that by (auto simp: p_def takeWhile_nth dest: set_takeWhileD)
  qed
  have tk: "takeWhile (\<lambda>x. x \<notin> set separators) s = take p s"
    unfolding p_def by (rule takeWhile_eq_take)
  have dr: "dropWhile (\<lambda>x. x \<notin> set separators) s = drop p s"
    unfolding p_def by (rule dropWhile_eq_drop)
  have "hd (drop p s) = s ! p"
    using p_less by (simp add: hd_drop_conv_nth)
  moreover have "tl (drop p s) = drop (Suc p) s"
    by (simp add: drop_Suc tl_drop)
  ultimately have "KeyValueType_call separators s =
      Inr \<lparr>key = take p s, val = drop (Suc p) s, sep = s ! p\<rparr>"
    using KeyValueType_call_first [OF assms] by (simp add: tk dr)
  with p_less at_p before show ?thesis by blast
qed

text \<open>
  At \<^verbatim>\<open>a:b=c\<close> the split is at the colon and the value keeps the equals sign.
\<close>

theorem classifier_splits_at_first_separator_witness:
  "set [SEP_COMMON, SEP_DATA] \<inter> set ''a:b=c'' \<noteq> {} \<and>
   KeyValueType_call [SEP_COMMON, SEP_DATA] ''a:b=c'' =
     Inr \<lparr>key = ''a'', val = ''b=c'', sep = CHR '':''\<rparr>"
proof -
  have ne: "set [SEP_COMMON, SEP_DATA] \<inter> set ''a:b=c'' \<noteq> {}"
    by (simp add: SEP_COMMON_def SEP_DATA_def)
  from classifier_splits_at_first_separator [OF ne]
  obtain p where p: "p < length ''a:b=c''" "''a:b=c'' ! p \<in> set [SEP_COMMON, SEP_DATA]"
      "\<forall>j<p. ''a:b=c'' ! j \<notin> set [SEP_COMMON, SEP_DATA]"
      "KeyValueType_call [SEP_COMMON, SEP_DATA] ''a:b=c'' =
         Inr \<lparr>key = take p ''a:b=c'', val = drop (Suc p) ''a:b=c'', sep = ''a:b=c'' ! p\<rparr>"
    by blast
  have "\<not> 1 < p"
    using p(3) by (auto simp: SEP_COMMON_def)
  moreover have "p \<noteq> 0"
  proof
    assume "p = 0"
    with p(2) show False by (simp add: SEP_COMMON_def SEP_DATA_def)
  qed
  ultimately have "p = 1" by simp
  with p(4) ne show ?thesis by simp
qed

text \<open>
  Claim C8. The Token Classifier fails, with the \<^verbatim>\<open>ArgumentTypeError\<close> that carries the
  offending string, exactly when no candidate separator occurs in the string; it fails in
  no other way, and it returns a token exactly when a candidate separator occurs.
\<close>

theorem classifier_fails_iff_no_separator:
  "(KeyValueType_call separators s =
      Inl (ArgumentTypeError (''\"'' @ s @ ''\" is not a valid value''))) =
     (set separators \<inter> set s = {})
   \<and> ((\<exists>e. KeyValueType_call separators s = Inl e) = (set separators \<inter> set s = {}))
   \<and> ((\<exists>t. KeyValueType_call separators s = Inr t) = (set separators \<inter> set s \<noteq> {}))"
proof (cases "set separators \<inter> set s = {}")
  case True
  then have "KeyValueType_call separators s =
      Inl (ArgumentTypeError (''\"'' @ s @ ''\" is not a valid value''))"
    by (simp add: KeyValueType_call_def found_positions_empty)
  with True show ?thesis by simp
next
  case False
  from KeyValueType_call_first [OF False] False show ?thesis by simp
qed

text \<open>
  \<^verbatim>\<open>abc\<close> is refused and \<^verbatim>\<open>a=b\<close> is accepted.
\<close>

theorem classifier_fails_iff_no_separator_witness:
  "KeyValueType_call [SEP_COMMON, SEP_DATA] ''abc'' =
     Inl (ArgumentTypeError ''\"abc\" is not a valid value'')
   \<and> (\<exists>t. KeyValueType_call [SEP_COMMON, SEP_DATA] ''a=b'' = Inr t)"
  using classifier_fails_iff_no_separator [of "[SEP_COMMON, SEP_DATA]" "''abc''"]
    classifier_fails_iff_no_separator [of "[SEP_COMMON, SEP_DATA]" "''a=b''"]
  by (simp add: SEP_COMMON_def SEP_DATA_def)

text \<open>
  Claim C10. A string whose first character is a candidate separator is accepted: the key
  is the empty string, the value is the rest of the string, the separator is that first
  character.
\<close>

theorem classifier_accepts_empty_key:
  assumes "c \<in> set separators"
  shows "KeyValueType_call separators (c # rest) = Inr \<lparr>key = [], val = rest, sep = c\<rparr>"
proof -
  have "set separators \<inter> set (c # rest) \<noteq> {}"
    using assms by auto
  from KeyValueType_call_first [OF this] assms show ?thesis by simp
qed

text \<open>
  \<^verbatim>\<open>:value\<close> and \<^verbatim>\<open>=value\<close> have the empty key.
\<close>

theorem classifier_accepts_empty_key_witness:
  "SEP_COMMON \<in> set [SEP_COMMON, SEP_DATA] \<and> SEP_DATA \<in> set [SEP_COMMON, SEP_DATA] \<and>
   KeyValueType_call [SEP_COMMON, SEP_DATA] '':value'' =
     Inr \<lparr>key = [], val = ''value'', sep = CHR '':''\<rparr> \<and>
   KeyValueType_call [SEP_COMMON, SEP_DATA] ''=value'' =
     Inr \<lparr>key = [], val = ''value'', sep = CHR ''=''\<rparr>"
  using classifier_accepts_empty_key [of SEP_COMMON "[SEP_COMMON, SEP_DATA]" "''value''"]
    classifier_accepts_empty_key [of SEP_DATA "[SEP_COMMON, SEP_DATA]" "''value''"]
  by (simp add: SEP_COMMON_def SEP_DATA_def)

section \<open>Facts about the header map\<close>

lemma hm_lookup_hm_set:
  "hm_lookup (hm_set k v h) n = (if lower n = lower k then Some v else hm_lookup h n)"
  by (induction h) (auto simp: hm_lookup_def)

lemma hm_count_hm_set:
  "hm_count (hm_set k v h) n =
     (if lower n = lower k \<and> hm_count h n = 0 then 1 else hm_count h n)"
  by (induction h) (auto simp: hm_count_def)

lemma hm_get_hm_set:
  "hm_get (hm_set k v h) n = (if lower n = lower k then Inr v else hm_get h n)"
  by (simp add: hm_get_def hm_lookup_hm_set)

lemma hm_set_first_key:
  "h \<noteq> [] \<Longrightarrow> hm_set k v h \<noteq> [] \<and> fst (hd (hm_set k v h)) = fst (hd h)"
  by (cases h) (auto split: if_splits)

lemma hm_lookup_first:
  "h \<noteq> [] \<Longrightarrow> hm_lookup h (fst (hd h)) = Some (snd (hd h))"
  by (cases h) (auto simp: hm_lookup_def)

lemma header_items_snoc:
  "header_items (its @ [i]) hs =
     (if sep i = SEP_COMMON then hm_set (key i) (val i) (header_items its hs)
      else header_items its hs)"
  by (simp add: header_items_def)

lemma last_header_snoc:
  "last_header n (its @ [i]) =
     (if sep i = SEP_COMMON \<and> lower (key i) = lower n then Some (val i) else last_header n its)"
  by (simp add: last_header_def)

lemma hm_lookup_header_items:
  "hm_lookup (header_items its hs) n =
     (case last_header n its of None \<Rightarrow> hm_lookup hs n | Some v \<Rightarrow> Some v)"
proof (induction its rule: rev_induct)
  case Nil
  show ?case by (simp add: header_items_def last_header_def)
next
  case (snoc i its)
  then show ?case
    by (simp add: header_items_snoc last_header_snoc hm_lookup_hm_set)
qed

lemma hm_count_header_items:
  "hm_count (header_items its hs) n =
     (if hm_count hs n = 0 \<and> last_header n its \<noteq> None then 1 else hm_count hs n)"
proof (induction its rule: rev_induct)
  case Nil
  show ?case by (simp add: header_items_def last_header_def)
next
  case (snoc i its)
  then show ?case
    by (simp add: header_items_snoc last_header_snoc hm_count_hm_set)
qed

lemma header_items_first_key:
  "hs \<noteq> [] \<Longrightarrow> header_items its hs \<noteq> [] \<and> fst (hd (header_items its hs)) = fst (hd hs)"
proof (induction its rule: rev_induct)
  case Nil
  then show ?case by (simp add: header_items_def)
next
  case (snoc i its)
  then show ?case
    using hm_set_first_key [of "header_items its hs" "key i" "val i"]
    by (simp add: header_items_snoc)
qed

lemma last_header_None:
  "last_header n its = None \<longleftrightarrow> \<not> (\<exists>i\<in>set its. sep i = SEP_COMMON \<and> lower (key i) = lower n)"
  by (auto simp: last_header_def filter_empty_conv)

lemma merge_items_eq:
  "merge_items stdin_isatty its hs d =
     (if \<not> stdin_isatty \<and> (\<exists>i\<in>set its. sep i \<noteq> SEP_COMMON) then Inl (ParserError MIXED_MESSAGE)
      else Inr (header_items its hs,
                foldl (\<lambda>d i. dict_set (key i) (val i) d) d (filter (\<lambda>i. sep i \<noteq> SEP_COMMON) its)))"
  by (induction its arbitrary: hs d) (auto simp: header_items_def)

section \<open>Facts about \<open>json.dumps\<close>\<close>

declare json_dumps.simps [simp del]

lemma iter_items_Nil: "iter_items order [] = []"
  by (simp add: iter_items_def)

lemma json_dumps_empty: "json_dumps enc order (Dict []) = Inr ''{}''"
  by (simp add: json_dumps.simps iter_items_Nil)

lemma json_dumps_Dict_nonempty: "json_dumps enc order (Dict d) = Inr js \<Longrightarrow> js \<noteq> []"
  by (auto simp: json_dumps.simps split: sum.splits)

section \<open>The assembled request\<close>

lemma lower_Content_Type_User_Agent: "lower ''Content-Type'' \<noteq> lower ''User-Agent''"
  by (simp add: lower_def lower_char_def)

text \<open>
  The content type step with standard input a terminal and a dictionary of data items:
  the JSON branch ends with the error of \<^verbatim>\<open>json.dumps\<close> or puts its text in the body.
\<close>

lemma content_type_tty_Dict:
  "content_type e args True hs (Dict d) =
     (if json args \<or> (\<not> form args \<and> d \<noteq> []) then
        (case json_dumps (encode_basestring_ascii e) (dict_iter e) (Dict d) of
           Inl err \<Rightarrow> Inl err
         | Inr text \<Rightarrow>
             Inr (if hm_contains hs ''Content-Type'' then hs
                  else hm_set ''Content-Type'' TYPE_JSON hs, Str text))
      else Inr (if hm_contains hs ''Content-Type'' then hs
                else hm_set ''Content-Type'' TYPE_FORM hs, Dict d))"
proof (cases "json_dumps (encode_basestring_ascii e) (dict_iter e) (Dict d)")
  case (Inl err)
  then show ?thesis
    by (simp add: content_type_def)
next
  case (Inr js)
  then have "js \<noteq> []"
    by (rule json_dumps_Dict_nonempty)
  with Inr show ?thesis
    by (simp add: content_type_def)
qed

lemma content_type_piped:
  "content_type e args False hs d =
     Inr (if hm_contains hs ''Content-Type'' then hs
          else if json args \<or> (\<not> form args \<and> truthy d) then hm_set ''Content-Type'' TYPE_JSON hs
          else hm_set ''Content-Type'' TYPE_FORM hs, d)"
  by (auto simp: content_type_def)

lemma content_type_first_key:
  assumes "content_type e args stdin_isatty hs d = Inr (hs2, d2)" "hs \<noteq> []"
  shows "hs2 \<noteq> [] \<and> fst (hd hs2) = fst (hd hs)"
  using assms hm_set_first_key [of hs "''Content-Type''"]
  by (auto simp: content_type_def split: if_splits sum.splits)

lemma content_type_other_header:
  assumes "content_type e args stdin_isatty hs d = Inr (hs2, d2)"
    and "lower n \<noteq> lower ''Content-Type''"
  shows "hm_lookup hs2 n = hm_lookup hs n" and "hm_count hs2 n = hm_count hs n"
  using assms
  by (auto simp: content_type_def hm_lookup_hm_set hm_count_hm_set split: if_splits sum.splits)

text \<open>
  Assembly fails in the loop over the items, with the message of \<^verbatim>\<open>parser.error\<close>, or
  in the content type step, with the error of \<^verbatim>\<open>json.dumps\<close>; otherwise the headers and
  the data of the request are those of the content type step, run on the merged headers
  and on the piped input or the data items.
\<close>

lemma assemble_Inl:
  assumes "\<not> stdin_isatty" "\<exists>i\<in>set (items args). sep i \<noteq> SEP_COMMON"
  shows "assemble e args stdin stdin_isatty = Inl (ParserError MIXED_MESSAGE)"
  using assms by (simp add: assemble_def merge_items_eq)

lemma assemble_content_type:
  assumes "stdin_isatty \<or> (\<forall>i\<in>set (items args). sep i = SEP_COMMON)"
  shows "map_sum id (\<lambda>rq. (req_headers rq, req_data rq)) (assemble e args stdin stdin_isatty) =
           content_type e args stdin_isatty
             (header_items (items args) [(''User-Agent'', DEFAULT_UA (pkg_version e))])
             (if \<not> stdin_isatty then Str stdin else Dict (data_items (items args)))"
proof -
  have m: "merge_items stdin_isatty (items args) [(''User-Agent'', DEFAULT_UA (pkg_version e))] [] =
      Inr (header_items (items args) [(''User-Agent'', DEFAULT_UA (pkg_version e))],
           data_items (items args))"
    using assms by (auto simp: merge_items_eq data_items_def)
  show ?thesis
    by (simp add: assemble_def m split: sum.splits prod.splits)
qed

lemma assemble_cases:
  assumes "stdin_isatty \<or> (\<forall>i\<in>set (items args). sep i = SEP_COMMON)"
  shows "case content_type e args stdin_isatty
             (header_items (items args) [(''User-Agent'', DEFAULT_UA (pkg_version e))])
             (if \<not> stdin_isatty then Str stdin else Dict (data_items (items args))) of
           Inl err \<Rightarrow> assemble e args stdin stdin_isatty = Inl err
         | Inr (hs2, d2) \<Rightarrow>
             (\<exists>rq. assemble e args stdin stdin_isatty = Inr rq \<and>
                req_headers rq = hs2 \<and> req_data rq = d2)"
  using assemble_content_type [OF assms, of e stdin]
  by (cases "assemble e args stdin stdin_isatty") (auto split: sum.splits)

lemma hm_lookup_single: "hm_lookup [(k, v)] n = (if lower k = lower n then Some v else None)"
  by (simp add: hm_lookup_def)

lemma hm_count_single: "hm_count [(k, v)] n = (if lower k = lower n then 1 else 0)"
  by (simp add: hm_count_def)

lemma merged_headers_Content_Type:
  "hm_lookup (header_items its [(''User-Agent'', ua)]) ''Content-Type'' =
     last_header ''Content-Type'' its"
  using lower_Content_Type_User_Agent
  by (simp add: hm_lookup_header_items hm_lookup_single split: option.splits)

lemma merged_headers_User_Agent:
  "hm_lookup (header_items its [(''User-Agent'', ua)]) ''User-Agent'' =
     Some (case last_header ''User-Agent'' its of None \<Rightarrow> ua | Some v \<Rightarrow> v)"
  by (simp add: hm_lookup_header_items hm_lookup_single split: option.splits)

lemma merged_headers_count_User_Agent:
  "hm_count (header_items its [(''User-Agent'', ua)]) ''User-Agent'' = 1"
  by (simp add: hm_count_header_items hm_count_single)

section \<open>The claims about the request\<close>

text \<open>
  Claim C1, as stated, fails: with standard input a terminal, no flag, no header item and
  the data item \<^verbatim>\<open>a=\<close> followed by the byte \<open>0xFF\<close>, the JSON branch is taken,
  \<^verbatim>\<open>json.dumps\<close> raises \<^verbatim>\<open>UnicodeDecodeError\<close>, and the run ends there: no request is
  assembled and none is sent.
\<close>

theorem content_type_decision_table_counterexample:
  "items (example_args\<lparr>items := example_bytes\<rparr>) =
     [\<lparr>key = ''a'', val = [CHR 0xFF], sep = CHR ''=''\<rparr>] \<and>
   data_items (items (example_args\<lparr>items := example_bytes\<rparr>)) = [(''a'', [CHR 0xFF])] \<and>
   last_header ''Content-Type'' (items (example_args\<lparr>items := example_bytes\<rparr>)) = None \<and>
   json (example_args\<lparr>items := example_bytes\<rparr>) = False \<and>
   form (example_args\<lparr>items := example_bytes\<rparr>) = False \<and>
   assemble example_env (example_args\<lparr>items := example_bytes\<rparr>) [] True =
     Inl UnicodeDecodeError \<and>
   main example_env (example_args\<lparr>items := example_bytes\<rparr>) [] True True =
     ([], Inl UnicodeDecodeError)"
  by (simp add: main_def assemble_def content_type_def json_dumps.simps iter_items_def data_items_def
      last_header_def hm_contains_def hm_lookup_def example_env_def example_args_def
      example_bytes_def example_quote_def SEP_COMMON_def lower_def lower_char_def
      DEFAULT_UA_def)

text \<open>
  Claim C1, amended. With standard input a terminal and no header item named
  \<^verbatim>\<open>Content-Type\<close> (in any casing): if \<^verbatim>\<open>--json\<close> is set, or \<^verbatim>\<open>--form\<close> is not set
  and the Data Map is not empty, then either \<^verbatim>\<open>json.dumps\<close> raises on the Data Map and
  the run ends with that error, or the request is assembled, its body is the JSON text of
  the Data Map and its \<^verbatim>\<open>Content-Type\<close> is \<^verbatim>\<open>application/json; charset=utf-8\<close>;
  otherwise the request is assembled, its body is the Data Map itself (which the transport
  form-encodes) and its \<^verbatim>\<open>Content-Type\<close> is
  \<^verbatim>\<open>application/x-www-form-urlencoded; charset=utf-8\<close>. The statement covers every
  combination of the two flags with an empty or non-empty Data Map.
\<close>

theorem content_type_decision_table:
  assumes "\<forall>i\<in>set (items args). sep i = SEP_COMMON \<longrightarrow> lower (key i) \<noteq> lower ''Content-Type''"
  shows "if json args \<or> (\<not> form args \<and> data_items (items args) \<noteq> []) then
           (case json_dumps (encode_basestring_ascii e) (dict_iter e)
                   (Dict (data_items (items args))) of
              Inl err \<Rightarrow> assemble e args stdin True = Inl err
            | Inr text \<Rightarrow>
                (\<exists>rq. assemble e args stdin True = Inr rq \<and>
                   req_data rq = Str text \<and>
                   hm_get (req_headers rq) ''Content-Type'' =
                     Inr ''application/json; charset=utf-8''))
         else
           (\<exists>rq. assemble e args stdin True = Inr rq \<and>
              req_data rq = Dict (data_items (items args)) \<and>
              hm_get (req_headers rq) ''Content-Type'' =
                Inr ''application/x-www-form-urlencoded; charset=utf-8'')"
proof -
  define hs where "hs = header_items (items args) [(''User-Agent'', DEFAULT_UA (pkg_version e))]"
  have "last_header ''Content-Type'' (items args) = None"
    using assms by (auto simp: last_header_None)
  then have absent: "\<not> hm_contains hs ''Content-Type''"
    by (simp add: hm_contains_def hs_def merged_headers_Content_Type)
  have cases: "case content_type e args True hs (Dict (data_items (items args))) of
       Inl err \<Rightarrow> assemble e args stdin True = Inl err
     | Inr (hs2, d2) \<Rightarrow>
         (\<exists>rq. assemble e args stdin True = Inr rq \<and> req_headers rq = hs2 \<and> req_data rq = d2)"
    using assemble_cases [of True args e stdin] by (simp add: hs_def)
  show ?thesis
  proof (cases "json args \<or> (\<not> form args \<and> data_items (items args) \<noteq> [])")
    case True
    show ?thesis
    proof (cases "json_dumps (encode_basestring_ascii e) (dict_iter e)
        (Dict (data_items (items args)))")
      case (Inl err)
      with True absent have "content_type e args True hs (Dict (data_items (items args))) = Inl err"
        by (simp add: content_type_tty_Dict)
      with cases True Inl show ?thesis
        by simp
    next
      case (Inr js)
      with True absent have "content_type e args True hs (Dict (data_items (items args))) =
          Inr (hm_set ''Content-Type'' TYPE_JSON hs, Str js)"
        by (simp add: content_type_tty_Dict)
      with cases obtain rq where "assemble e args stdin True = Inr rq"
        and "req_headers rq = hm_set ''Content-Type'' TYPE_JSON hs" and "req_data rq = Str js"
        by auto
      with True Inr show ?thesis
        by (simp add: hm_get_hm_set TYPE_JSON_def)
    qed
  next
    case False
    with absent have "content_type e args True hs (Dict (data_items (items args))) =
        Inr (hm_set ''Content-Type'' TYPE_FORM hs, Dict (data_items (items args)))"
      by (auto simp: content_type_tty_Dict)
    with cases obtain rq where "assemble e args stdin True = Inr rq"
      and "req_headers rq = hm_set ''Content-Type'' TYPE_FORM hs"
      and "req_data rq = Dict (data_items (items args))"
      by auto
    with False show ?thesis
      by (auto simp: hm_get_hm_set TYPE_FORM_def)
  qed
qed

text \<open>
  The data item \<^verbatim>\<open>name=joe\<close>: without a flag the body is its JSON text, with
  \<^verbatim>\<open>--form\<close> it is the Data Map; and the item with the byte \<open>0xFF\<close> under
  \<^verbatim>\<open>--json\<close> ends the run.
\<close>

theorem content_type_decision_table_witness:
  "(\<exists>rq. assemble example_env (example_args\<lparr>items := example_items\<rparr>) [] True = Inr rq \<and>
      req_data rq = Str ''{\"name\": \"joe\"}'' \<and>
      hm_get (req_headers rq) ''Content-Type'' = Inr ''application/json; charset=utf-8'')
   \<and> (\<exists>rq. assemble example_env (example_args\<lparr>items := example_items, form := True\<rparr>) [] True =
          Inr rq \<and>
        req_data rq = Dict [(''name'', ''joe'')] \<and>
        hm_get (req_headers rq) ''Content-Type'' =
          Inr ''application/x-www-form-urlencoded; charset=utf-8'')
   \<and> assemble example_env (example_args\<lparr>items := example_bytes, json := True\<rparr>) [] True =
        Inl UnicodeDecodeError"
proof -
  have h1: "\<forall>i\<in>set (items (example_args\<lparr>items := example_items\<rparr>)).
      sep i = SEP_COMMON \<longrightarrow> lower (key i) \<noteq> lower ''Content-Type''"
    by (simp add: example_args_def example_items_def SEP_COMMON_def)
  have h2: "\<forall>i\<in>set (items (example_args\<lparr>items := example_items, form := True\<rparr>)).
      sep i = SEP_COMMON \<longrightarrow> lower (key i) \<noteq> lower ''Content-Type''"
    by (simp add: example_args_def example_items_def SEP_COMMON_def)
  have h3: "\<forall>i\<in>set (items (example_args\<lparr>items := example_bytes, json := True\<rparr>)).
      sep i = SEP_COMMON \<longrightarrow> lower (key i) \<noteq> lower ''Content-Type''"
    by (simp add: example_args_def example_bytes_def SEP_COMMON_def)
  have d1: "data_items example_items = [(''name'', ''joe'')]"
    by (simp add: data_items_def example_items_def SEP_COMMON_def)
  have d3: "data_items example_bytes = [(''a'', [CHR 0xFF])]"
    by (simp add: data_items_def example_bytes_def SEP_COMMON_def)
  have j1: "json_dumps (encode_basestring_ascii example_env) (dict_iter example_env)
      (Dict [(''name'', ''joe'')]) = Inr ''{\"name\": \"joe\"}''"
    by (simp add: json_dumps.simps iter_items_def example_env_def example_quote_def)
  have j3: "json_dumps (encode_basestring_ascii example_env) (dict_iter example_env)
      (Dict [(''a'', [CHR 0xFF])]) = Inl UnicodeDecodeError"
    by (simp add: json_dumps.simps iter_items_def example_env_def example_quote_def)
  show ?thesis
    using content_type_decision_table [OF h1, where e = example_env and stdin = "[]"]
      content_type_decision_table [OF h2, where e = example_env and stdin = "[]"]
      content_type_decision_table [OF h3, where e = example_env and stdin = "[]"]
    by (simp add: d1 d3 j1 j3 example_args_def)
qed

text \<open>
  Claim C3. With standard input piped and an item with the data separator \<^verbatim>\<open>=\<close>, the run
  ends with the usage error of \<^verbatim>\<open>parser.error\<close> (the specification's
  MixedBodySourceError) and has made no call of the transport: no event at all precedes
  the error.
\<close>

theorem mixed_body_sources_rejected:
  assumes "\<exists>i\<in>set (items args). sep i = SEP_DATA"
  shows "main e args stdin False stdout_isatty = ([], Inl (ParserError MIXED_MESSAGE)) \<and>
         filter is_sent (fst (main e args stdin False stdout_isatty)) = []"
proof -
  have "SEP_DATA \<noteq> SEP_COMMON"
    by (simp add: SEP_DATA_def SEP_COMMON_def)
  then have "\<exists>i\<in>set (items args). sep i \<noteq> SEP_COMMON"
    using assms by force
  then have "assemble e args stdin False = Inl (ParserError MIXED_MESSAGE)"
    by (simp add: assemble_Inl)
  then show ?thesis
    by (simp add: main_def)
qed

text \<open>
  A data item with piped input.
\<close>

theorem mixed_body_sources_rejected_witness:
  "(\<exists>i\<in>set (items (example_args\<lparr>items := example_items\<rparr>)). sep i = SEP_DATA) \<and>
   main example_env (example_args\<lparr>items := example_items\<rparr>) ''piped'' False True =
     ([], Inl (ParserError ''Request body (stdin) and request data (key=value) cannot be mixed.''))"
  using mixed_body_sources_rejected [where args = "example_args\<lparr>items := example_items\<rparr>"
      and e = example_env and stdin = "''piped''" and stdout_isatty = True]
  by (simp add: example_args_def example_items_def SEP_DATA_def MIXED_MESSAGE_def)

text \<open>
  Claim C4. When the user gives a header item named \<^verbatim>\<open>Content-Type\<close> in any casing, \<open>v\<close>
  being the value of the last such item, the assembled request's \<^verbatim>\<open>Content-Type\<close> is
  \<open>v\<close>, and its header map is the one the items built: the content type step has not
  written to it, whatever the flags and the data items. No request is assembled only when
  \<^verbatim>\<open>json.dumps\<close> raises (standard input a terminal) or a data item meets piped input.
\<close>

theorem user_content_type_kept:
  assumes "last_header ''Content-Type'' (items args) = Some v"
  shows "case assemble e args stdin stdin_isatty of
           Inl err \<Rightarrow>
             (if stdin_isatty then
                json_dumps (encode_basestring_ascii e) (dict_iter e)
                  (Dict (data_items (items args))) = Inl err
              else err = ParserError MIXED_MESSAGE \<and>
                   (\<exists>i\<in>set (items args). sep i \<noteq> SEP_COMMON))
         | Inr rq \<Rightarrow>
             hm_get (req_headers rq) ''Content-Type'' = Inr v \<and>
             req_headers rq =
               header_items (items args) [(''User-Agent'', DEFAULT_UA (pkg_version e))]"
proof (cases "stdin_isatty \<or> (\<forall>i\<in>set (items args). sep i = SEP_COMMON)")
  case True
  define hs where "hs = header_items (items args) [(''User-Agent'', DEFAULT_UA (pkg_version e))]"
  have present: "hm_lookup hs ''Content-Type'' = Some v"
    using assms by (simp add: hs_def merged_headers_Content_Type)
  then have contains: "hm_contains hs ''Content-Type''"
    by (simp add: hm_contains_def)
  have cases: "case content_type e args stdin_isatty hs
         (if \<not> stdin_isatty then Str stdin else Dict (data_items (items args))) of
       Inl err \<Rightarrow> assemble e args stdin stdin_isatty = Inl err
     | Inr (hs2, d2) \<Rightarrow>
         (\<exists>rq. assemble e args stdin stdin_isatty = Inr rq \<and>
            req_headers rq = hs2 \<and> req_data rq = d2)"
    using assemble_cases [OF True, of e stdin] by (simp add: hs_def)
  show ?thesis
  proof (cases stdin_isatty)
    case tty: True
    show ?thesis
      using cases contains present
      by (auto simp: tty content_type_tty_Dict hm_get_def hs_def split: sum.splits if_splits)
  next
    case piped: False
    show ?thesis
      using cases contains present
      by (auto simp: piped content_type_piped hm_get_def hs_def split: sum.splits)
  qed
next
  case False
  then show ?thesis
    by (simp add: assemble_Inl)
qed

text \<open>
  \<^verbatim>\<open>content-type:text/plain\<close> with a data item.
\<close>

theorem user_content_type_kept_witness:
  "last_header ''Content-Type'' (items (example_args\<lparr>items := example_headers @ example_items\<rparr>)) =
     Some ''text/plain''
   \<and> (\<exists>rq. assemble example_env (example_args\<lparr>items := example_headers @ example_items\<rparr>) [] True =
          Inr rq \<and>
        hm_get (req_headers rq) ''Content-Type'' = Inr ''text/plain'' \<and>
        req_headers rq = [(''User-Agent'', ''you''), (''content-type'', ''text/plain'')])"
proof -
  have h: "last_header ''Content-Type''
      (items (example_args\<lparr>items := example_headers @ example_items\<rparr>)) = Some ''text/plain''"
    by (simp add: last_header_def example_args_def example_headers_def example_items_def
        SEP_COMMON_def lower_def lower_char_def)
  have hs: "header_items (example_headers @ example_items)
        [(''User-Agent'', DEFAULT_UA (pkg_version example_env))] =
      [(''User-Agent'', ''you''), (''content-type'', ''text/plain'')]"
    by (simp add: header_items_def example_env_def example_headers_def example_items_def
        SEP_COMMON_def lower_def lower_char_def DEFAULT_UA_def)
  have d: "data_items (example_headers @ example_items) = [(''name'', ''joe'')]"
    by (simp add: data_items_def example_headers_def example_items_def SEP_COMMON_def)
  have j: "json_dumps (encode_basestring_ascii example_env) (dict_iter example_env)
      (Dict [(''name'', ''joe'')]) = Inr ''{\"name\": \"joe\"}''"
    by (simp add: json_dumps.simps iter_items_def example_env_def example_quote_def)
  from user_content_type_kept [OF h, where e = example_env and stdin = "[]" and stdin_isatty = True]
  obtain rq where "assemble example_env (example_args\<lparr>items := example_headers @ example_items\<rparr>) [] True =
          Inr rq"
    and "hm_get (req_headers rq) ''Content-Type'' = Inr ''text/plain''"
    and "req_headers rq = header_items (items (example_args\<lparr>items := example_headers @ example_items\<rparr>))
        [(''User-Agent'', DEFAULT_UA (pkg_version example_env))]"
    by (auto split: sum.splits simp: d j)
  with h hs show ?thesis
    by simp
qed

text \<open>
  Claim C6, as stated, fails: with \<^verbatim>\<open>--json\<close> and no item the body of the request is not
  empty, it is the two characters \<^verbatim>\<open>{}\<close>.
\<close>

theorem json_flag_without_data_counterexample:
  "json (example_args\<lparr>json := True\<rparr>) \<and> items (example_args\<lparr>json := True\<rparr>) = [] \<and>
   assemble example_env (example_args\<lparr>json := True\<rparr>) [] True =
     Inr \<lparr>req_method = ''post'', req_url = ''http://example.com'',
          req_headers = [(''User-Agent'', ''HTTPie/0.1''),
                         (''Content-Type'', ''application/json; charset=utf-8'')],
          req_data = Str ''{}'', req_verify = VerifyArg None, req_timeout = None,
          req_auth = None, req_proxies = [], req_files = [], req_allow_redirects = False\<rparr> \<and>
   Str ''{}'' \<noteq> Str [] \<and> truthy (Str ''{}'')"
  by (simp add: assemble_def content_type_def json_dumps.simps iter_items_def hm_contains_def
      hm_lookup_def dict_of_def example_env_def example_args_def lower_def lower_char_def
      TYPE_JSON_def DEFAULT_UA_def)

text \<open>
  Claim C6, amended. With \<^verbatim>\<open>--json\<close> set, no data item, standard input a terminal and no
  header item named \<^verbatim>\<open>Content-Type\<close>, the assembled request has the \<^verbatim>\<open>Content-Type\<close>
  \<open>TYPE_JSON\<close> and its body is the JSON text of the empty Data Map, \<^verbatim>\<open>{}\<close>.
\<close>

theorem json_flag_without_data:
  assumes "json args"
    and "\<forall>i\<in>set (items args). sep i = SEP_COMMON \<and> lower (key i) \<noteq> lower ''Content-Type''"
  shows "\<exists>rq. assemble e args stdin True = Inr rq \<and> req_data rq = Str ''{}'' \<and>
           hm_get (req_headers rq) ''Content-Type'' = Inr TYPE_JSON"
proof -
  define hs where "hs = header_items (items args) [(''User-Agent'', DEFAULT_UA (pkg_version e))]"
  have "last_header ''Content-Type'' (items args) = None"
    using assms(2) by (auto simp: last_header_None)
  then have absent: "\<not> hm_contains hs ''Content-Type''"
    by (simp add: hm_contains_def hs_def merged_headers_Content_Type)
  have "filter (\<lambda>i. sep i \<noteq> SEP_COMMON) (items args) = []"
    using assms(2) by (simp add: filter_empty_conv)
  then have empty: "data_items (items args) = []"
    by (simp add: data_items_def)
  have "content_type e args True hs (Dict []) =
      Inr (hm_set ''Content-Type'' TYPE_JSON hs, Str ''{}'')"
    using absent assms(1) by (simp add: content_type_tty_Dict json_dumps_empty)
  then obtain rq where "assemble e args stdin True = Inr rq"
    and "req_headers rq = hm_set ''Content-Type'' TYPE_JSON hs" and "req_data rq = Str ''{}''"
    using assemble_cases [of True args e stdin] by (auto simp: hs_def empty)
  then show ?thesis
    by (simp add: hm_get_hm_set)
qed

text \<open>
  \<^verbatim>\<open>--json\<close> and no item.
\<close>

theorem json_flag_without_data_witness:
  "json (example_args\<lparr>json := True\<rparr>) \<and> items (example_args\<lparr>json := True\<rparr>) = [] \<and>
   (\<exists>rq. assemble example_env (example_args\<lparr>json := True\<rparr>) [] True = Inr rq \<and>
      req_data rq = Str ''{}'' \<and>
      hm_get (req_headers rq) ''Content-Type'' = Inr ''application/json; charset=utf-8'')"
  using json_flag_without_data [where args = "example_args\<lparr>json := True\<rparr>"
      and e = example_env and stdin = "[]"]
  by (simp add: example_args_def TYPE_JSON_def)

text \<open>
  Claim C7, as stated, fails: with \<^verbatim>\<open>Content-Type\<close> already in the header map, the content
  type step still replaces a body of data items by its JSON text.
\<close>

theorem content_type_present_counterexample:
  "hm_contains [(''User-Agent'', ''HTTPie/0.1''), (''Content-Type'', ''text/plain'')] ''Content-Type'' \<and>
   content_type example_env example_args True
       [(''User-Agent'', ''HTTPie/0.1''), (''Content-Type'', ''text/plain'')] (Dict [(''a'', ''b'')]) =
     Inr ([(''User-Agent'', ''HTTPie/0.1''), (''Content-Type'', ''text/plain'')],
          Str ''{\"a\": \"b\"}'') \<and>
   Str ''{\"a\": \"b\"}'' \<noteq> Dict [(''a'', ''b'')] \<and>
   assemble example_env
       (example_args\<lparr>items := [\<lparr>key = ''Content-Type'', val = ''text/plain'', sep = CHR '':''\<rparr>,
                                 \<lparr>key = ''a'', val = ''b'', sep = CHR ''=''\<rparr>]\<rparr>) [] True =
     Inr \<lparr>req_method = ''post'', req_url = ''http://example.com'',
          req_headers = [(''User-Agent'', ''HTTPie/0.1''), (''Content-Type'', ''text/plain'')],
          req_data = Str ''{\"a\": \"b\"}'', req_verify = VerifyArg None, req_timeout = None,
          req_auth = None, req_proxies = [], req_files = [], req_allow_redirects = False\<rparr>"
  by (simp add: assemble_def content_type_def json_dumps.simps iter_items_def hm_contains_def
      hm_lookup_def dict_of_def example_env_def example_args_def example_quote_def
      SEP_COMMON_def lower_def lower_char_def DEFAULT_UA_def)

text \<open>
  Claim C7, amended. When the header map already contains \<^verbatim>\<open>Content-Type\<close> (in any
  casing) as the content type step runs, the step never writes to the header map; the
  body is still serialized when standard input is a terminal and \<^verbatim>\<open>--json\<close> is set, or
  \<^verbatim>\<open>--form\<close> is not set and the data is not empty: then \<^verbatim>\<open>json.dumps\<close> raises and the
  run ends with its error, or the body is replaced by the JSON text. In every other case
  the body is left unchanged.
\<close>

theorem content_type_present_body_still_serialized:
  assumes "hm_contains hs ''Content-Type''"
  shows "content_type e args stdin_isatty hs d =
           (if stdin_isatty \<and> (json args \<or> (\<not> form args \<and> truthy d)) then
              (case json_dumps (encode_basestring_ascii e) (dict_iter e) d of
                 Inl err \<Rightarrow> Inl err
               | Inr text \<Rightarrow> Inr (hs, Str text))
            else Inr (hs, d))"
  using assms by (simp add: content_type_def split: sum.splits)

text \<open>
  With \<^verbatim>\<open>--form\<close> the data item stays a Data Map; without a flag it becomes its JSON
  text, and the byte \<open>0xFF\<close> ends the step with the error.
\<close>

theorem content_type_present_body_still_serialized_witness:
  "hm_contains [(''content-type'', ''text/plain'')] ''Content-Type'' \<and>
   content_type example_env (example_args\<lparr>form := True\<rparr>) True
       [(''content-type'', ''text/plain'')] (Dict [(''a'', ''b'')]) =
     Inr ([(''content-type'', ''text/plain'')], Dict [(''a'', ''b'')]) \<and>
   content_type example_env example_args True
       [(''content-type'', ''text/plain'')] (Dict [(''a'', ''b'')]) =
     Inr ([(''content-type'', ''text/plain'')], Str ''{\"a\": \"b\"}'') \<and>
   content_type example_env example_args True
       [(''content-type'', ''text/plain'')] (Dict [(''a'', [CHR 0xFF])]) =
     Inl UnicodeDecodeError"
proof -
  have h: "hm_contains [(''content-type'', ''text/plain'')] ''Content-Type''"
    by (simp add: hm_contains_def hm_lookup_def lower_def lower_char_def)
  have j1: "json_dumps (encode_basestring_ascii example_env) (dict_iter example_env)
      (Dict [(''a'', ''b'')]) = Inr ''{\"a\": \"b\"}''"
    by (simp add: json_dumps.simps iter_items_def example_env_def example_quote_def)
  have j2: "json_dumps (encode_basestring_ascii example_env) (dict_iter example_env)
      (Dict [(''a'', [CHR 0xFF])]) = Inl UnicodeDecodeError"
    by (simp add: json_dumps.simps iter_items_def example_env_def example_quote_def)
  show ?thesis
    using h
      content_type_present_body_still_serialized [OF h, where e = example_env
        and args = "example_args\<lparr>form := True\<rparr>" and stdin_isatty = True
        and d = "Dict [(''a'', ''b'')]"]
      content_type_present_body_still_serialized [OF h, where e = example_env
        and args = example_args and stdin_isatty = True and d = "Dict [(''a'', ''b'')]"]
      content_type_present_body_still_serialized [OF h, where e = example_env
        and args = example_args and stdin_isatty = True and d = "Dict [(''a'', [CHR 0xFF])]"]
    by (simp add: j1 j2 example_args_def)
qed

text \<open>
  Claim C9. The header map of every assembled request has exactly one entry under
  \<^verbatim>\<open>User-Agent\<close>, and it is the first entry, stored under the name \<^verbatim>\<open>User-Agent\<close> with
  which it was seeded before the items were merged: its value is the default, the text
  \<^verbatim>\<open>HTTPie/\<close> followed by the version, when no header item has that name, and otherwise
  the value of the last header item whose name equals \<^verbatim>\<open>User-Agent\<close> without regard to
  case. No request is assembled only when \<^verbatim>\<open>json.dumps\<close> raises (standard input a
  terminal) or a data item meets piped input.
\<close>

theorem single_user_agent:
  "case assemble e args stdin stdin_isatty of
     Inl err \<Rightarrow>
       (if stdin_isatty then
          json_dumps (encode_basestring_ascii e) (dict_iter e)
            (Dict (data_items (items args))) = Inl err
        else err = ParserError MIXED_MESSAGE \<and> (\<exists>i\<in>set (items args). sep i \<noteq> SEP_COMMON))
   | Inr rq \<Rightarrow>
       hm_count (req_headers rq) ''User-Agent'' = 1 \<and>
       hm_get (req_headers rq) ''User-Agent'' =
         Inr (case last_header ''User-Agent'' (items args) of
                None \<Rightarrow> ''HTTPie/'' @ pkg_version e
              | Some v \<Rightarrow> v) \<and>
       (\<exists>rest. req_headers rq =
          (''User-Agent'',
           case last_header ''User-Agent'' (items args) of
             None \<Rightarrow> ''HTTPie/'' @ pkg_version e
           | Some v \<Rightarrow> v) # rest)"
proof (cases "stdin_isatty \<or> (\<forall>i\<in>set (items args). sep i = SEP_COMMON)")
  case True
  define ua where "ua = (case last_header ''User-Agent'' (items args) of
     None \<Rightarrow> ''HTTPie/'' @ pkg_version e | Some v \<Rightarrow> v)"
  define hs where "hs = header_items (items args) [(''User-Agent'', DEFAULT_UA (pkg_version e))]"
  define d where "d = (if \<not> stdin_isatty then Str stdin else Dict (data_items (items args)))"
  have ne: "lower ''User-Agent'' \<noteq> lower ''Content-Type''"
    using lower_Content_Type_User_Agent by simp
  have hs_first: "hs \<noteq> [] \<and> fst (hd hs) = ''User-Agent''"
    using header_items_first_key [of "[(''User-Agent'', DEFAULT_UA (pkg_version e))]" "items args"]
    by (simp add: hs_def)
  have hs_count: "hm_count hs ''User-Agent'' = 1"
    by (simp add: hs_def merged_headers_count_User_Agent)
  have hs_lookup: "hm_lookup hs ''User-Agent'' = Some ua"
    by (simp add: hs_def ua_def merged_headers_User_Agent DEFAULT_UA_def split: option.splits)
  have cases: "case content_type e args stdin_isatty hs d of
       Inl err \<Rightarrow> assemble e args stdin stdin_isatty = Inl err
     | Inr (hs2, d2) \<Rightarrow>
         (\<exists>rq. assemble e args stdin stdin_isatty = Inr rq \<and>
            req_headers rq = hs2 \<and> req_data rq = d2)"
    using assemble_cases [OF True, of e stdin] by (simp add: hs_def d_def)
  show ?thesis
  proof (cases "content_type e args stdin_isatty hs d")
    case (Inl err)
    with cases have a: "assemble e args stdin stdin_isatty = Inl err"
      by simp
    have tty: stdin_isatty
      using Inl by (cases stdin_isatty) (simp_all add: content_type_piped)
    then have "json_dumps (encode_basestring_ascii e) (dict_iter e)
        (Dict (data_items (items args))) = Inl err"
      using Inl by (auto simp: d_def content_type_tty_Dict split: if_splits sum.splits)
    with a tty show ?thesis
      by simp
  next
    case (Inr res)
    obtain hs2 d2 where res: "res = (hs2, d2)"
      by (cases res)
    from cases Inr res obtain rq where rq: "assemble e args stdin stdin_isatty = Inr rq"
      and h: "req_headers rq = hs2"
      by auto
    have ct: "content_type e args stdin_isatty hs d = Inr (hs2, d2)"
      using Inr res by simp
    have count: "hm_count hs2 ''User-Agent'' = 1"
      using content_type_other_header(2) [OF ct ne] hs_count by simp
    have lookup: "hm_lookup hs2 ''User-Agent'' = Some ua"
      using content_type_other_header(1) [OF ct ne] hs_lookup by simp
    have first: "hs2 \<noteq> [] \<and> fst (hd hs2) = ''User-Agent''"
      using content_type_first_key [OF ct] hs_first by simp
    then have "hm_lookup hs2 ''User-Agent'' = Some (snd (hd hs2))"
      using hm_lookup_first [of hs2] by simp
    with lookup have "snd (hd hs2) = ua"
      by simp
    with first have "hs2 = (''User-Agent'', ua) # tl hs2"
      by (cases hs2) auto
    then have "\<exists>rest. hs2 = (''User-Agent'', ua) # rest"
      by blast
    with rq h count lookup show ?thesis
      by (simp add: hm_get_def flip: ua_def)
  qed
next
  case False
  then show ?thesis
    by (simp add: assemble_Inl)
qed

text \<open>
  Without a header item the entry is \<^verbatim>\<open>HTTPie/0.1\<close>; after \<^verbatim>\<open>USER-AGENT:me\<close> and then
  \<^verbatim>\<open>user-agent:you\<close> it is \<^verbatim>\<open>you\<close>.
\<close>

theorem single_user_agent_witness:
  "(\<exists>rq. assemble example_env (example_args\<lparr>items := example_items, form := True\<rparr>) [] True =
      Inr rq \<and>
     hm_count (req_headers rq) ''User-Agent'' = 1 \<and>
     hm_get (req_headers rq) ''User-Agent'' = Inr ''HTTPie/0.1'' \<and>
     (\<exists>rest. req_headers rq = (''User-Agent'', ''HTTPie/0.1'') # rest))
   \<and> (\<exists>rq. assemble example_env (example_args\<lparr>items := example_headers\<rparr>) [] True = Inr rq \<and>
        hm_count (req_headers rq) ''User-Agent'' = 1 \<and>
        hm_get (req_headers rq) ''User-Agent'' = Inr ''you'' \<and>
        (\<exists>rest. req_headers rq = (''User-Agent'', ''you'') # rest))"
proof -
  have l1: "last_header ''User-Agent''
      (items (example_args\<lparr>items := example_items, form := True\<rparr>)) = None"
    by (simp add: last_header_def example_args_def example_items_def SEP_COMMON_def)
  have l2: "last_header ''User-Agent'' (items (example_args\<lparr>items := example_headers\<rparr>)) =
      Some ''you''"
    by (simp add: last_header_def example_args_def example_headers_def SEP_COMMON_def
        lower_def lower_char_def)
  have v: "''HTTPie/'' @ pkg_version example_env = ''HTTPie/0.1''"
    by (simp add: example_env_def)
  obtain rq1 where r1:
    "assemble example_env (example_args\<lparr>items := example_items, form := True\<rparr>) [] True = Inr rq1"
    by (simp add: assemble_def content_type_def hm_contains_def hm_lookup_def example_args_def
        example_items_def SEP_COMMON_def lower_def lower_char_def)
  obtain rq2 where r2:
    "assemble example_env (example_args\<lparr>items := example_headers\<rparr>) [] True = Inr rq2"
    by (simp add: assemble_def content_type_def hm_contains_def hm_lookup_def example_args_def
        example_headers_def SEP_COMMON_def lower_def lower_char_def)
  have "hm_count (req_headers rq1) ''User-Agent'' = 1 \<and>
      hm_get (req_headers rq1) ''User-Agent'' = Inr ''HTTPie/0.1'' \<and>
      (\<exists>rest. req_headers rq1 = (''User-Agent'', ''HTTPie/0.1'') # rest)"
    using single_user_agent [where e = example_env
        and args = "example_args\<lparr>items := example_items, form := True\<rparr>"
        and stdin = "[]" and stdin_isatty = True]
    unfolding r1 l1 v by simp
  moreover have "hm_count (req_headers rq2) ''User-Agent'' = 1 \<and>
      hm_get (req_headers rq2) ''User-Agent'' = Inr ''you'' \<and>
      (\<exists>rest. req_headers rq2 = (''User-Agent'', ''you'') # rest)"
    using single_user_agent [where e = example_env
        and args = "example_args\<lparr>items := example_headers\<rparr>"
        and stdin = "[]" and stdin_isatty = True]
    unfolding r2 l2 by simp
  ultimately show ?thesis
    using r1 r2 by blast
qed

section \<open>The claim about the display\<close>

lemma prettify_response_body_calls:
  "\<exists>evs s h b. prettify_response e args tty hs (status_line, hdrs, body) = Inr (evs, s, h, b) \<and>
     filter is_body_call evs =
       (case hm_lookup hs ''content-type'' of
          None \<Rightarrow> []
        | Some ct \<Rightarrow> if do_prettify args tty \<and> print_body args then [PrettyBody body ct] else [])"
  by (cases "hm_lookup hs ''content-type''")
    (auto simp: prettify_response_def hm_contains_def hm_get_def Let_def)

text \<open>
  Claim C5, as stated, fails: with \<^verbatim>\<open>--ugly\<close> the response has a \<^verbatim>\<open>content-type\<close> header
  and the formatter's body operation is not called.
\<close>

theorem body_formatter_calls_counterexample:
  "hm_contains (headers example_response) ''content-type'' \<and>
   display example_env (example_args\<lparr>prettify := Flag False\<rparr>) True example_response =
     ([Stdout ''HTTP/1.1 200 OK'', Stdout [CHR 0x0A], Stdout ''Content-Type: text/plain'',
       Stdout [CHR 0x0A, CHR 0x0A], Stdout ''hello'', Stdout [CHR 0x0A]], Inr ()) \<and>
   filter is_body_call
     (fst (display example_env (example_args\<lparr>prettify := Flag False\<rparr>) True example_response)) = []"
  by (simp add: display_def decode_response_def prettify_response_def do_prettify_def
      status_line_of_def hm_contains_def hm_lookup_def example_env_def example_args_def
      example_response_def lower_def lower_char_def)

text \<open>
  Claim C5, amended. In the display of a response the formatter's body operation is
  called exactly once, on the decoded body and with the value of the response's
  \<^verbatim>\<open>content-type\<close> header, when the header block and the body decode, the response has a
  \<^verbatim>\<open>content-type\<close> header, \<open>do_prettify\<close> holds and \<^verbatim>\<open>args.print_body\<close> is set; in every
  other case it is not called.
\<close>

theorem body_formatter_calls:
  "filter is_body_call (fst (display e args stdout_isatty r)) =
     (case decode_response e r of
        Inl err \<Rightarrow> []
      | Inr (hdrs, body) \<Rightarrow>
          (case hm_lookup (headers r) ''content-type'' of
             None \<Rightarrow> []
           | Some ct \<Rightarrow>
               if do_prettify args stdout_isatty \<and> print_body args then [PrettyBody body ct]
               else []))"
proof (cases "decode_response e r")
  case (Inl err)
  then show ?thesis
    by (simp add: display_def)
next
  case (Inr decoded)
  obtain hdrs body where decoded: "decoded = (hdrs, body)"
    by (cases decoded)
  obtain evs s h b where
    p: "prettify_response e args stdout_isatty (headers r) (status_line_of r, hdrs, body) =
          Inr (evs, s, h, b)"
    and c: "filter is_body_call evs =
       (case hm_lookup (headers r) ''content-type'' of
          None \<Rightarrow> []
        | Some ct \<Rightarrow>
            if do_prettify args stdout_isatty \<and> print_body args then [PrettyBody body ct] else [])"
    using prettify_response_body_calls by blast
  have "filter is_body_call (fst (display e args stdout_isatty r)) = filter is_body_call evs"
    by (simp add: display_def Inr decoded p)
  with c show ?thesis
    by (simp add: Inr decoded)
qed

text \<open>
  On a terminal the body of the example response is formatted once; with \<^verbatim>\<open>--headers\<close>
  it is not.
\<close>

theorem body_formatter_calls_witness:
  "filter is_body_call (fst (display example_env example_args True example_response)) =
     [PrettyBody ''hello'' ''text/plain''] \<and>
   filter is_body_call (fst (display example_env (example_args\<lparr>print_body := False\<rparr>) True
     example_response)) = []"
proof -
  have h: "decode_response example_env example_response =
      Inr (''Content-Type: text/plain'', ''hello'')"
    by (simp add: decode_response_def example_env_def example_response_def)
  have l: "hm_lookup (headers example_response) ''content-type'' = Some ''text/plain''"
    by (simp add: hm_lookup_def example_response_def lower_def lower_char_def)
  show ?thesis
    using body_formatter_calls [where e = example_env and r = example_response
        and args = example_args and stdout_isatty = True]
      body_formatter_calls [where e = example_env and r = example_response
        and args = "example_args\<lparr>print_body := False\<rparr>" and stdout_isatty = True]
    by (simp add: h l do_prettify_def example_args_def)
qed

end
